theory Spec2Isabelle
  imports Main "HOL-Library.Word"
begin

unbundle bit_operations_syntax

section \<open>Machine model\<close>

text \<open>
  The x86\_64 continuation code works on raw stack words.  An \<open>intptr_t*\<close> (and an
  \<open>address\<close>) is a byte address, a 64-bit word; \<open>intptr_t\<close> is a 64-bit word too.
  The null pointer is \<open>0\<close>.  Memory maps the byte address of a stack word to the word
  stored there; \<open>*p = v\<close> is \<open>m(p := v)\<close>.

  C++ pointer arithmetic on \<open>intptr_t*\<close> counts in words of 8 bytes:
  \<open>p + n\<close> is \<open>ptr_add p n\<close> for an \<open>int\<close> \<open>n\<close> and \<open>ptr_addw p n\<close> for an
  \<open>intptr_t\<close> \<open>n\<close> (\<open>ptr_sub\<close> and \<open>ptr_subw\<close> for \<open>p - n\<close>); \<open>p - q\<close> on two pointers
  is \<open>ptr_diff p q\<close>, the signed byte distance divided by the word size (C++ defines
  it only when the distance is a whole number of words).  Values of the C++ type \<open>int\<close> are modelled as \<open>int\<close>:
  signed overflow is undefined in C++, and the sizes that occur are small.
\<close>

type_synonym addr = "64 word"
type_synonym intptr = "64 word"
type_synonym mem = "addr \<Rightarrow> intptr"

definition ptr_add :: "addr \<Rightarrow> int \<Rightarrow> addr" where
  "ptr_add p n = p + word_of_int (8 * n)"

definition ptr_addw :: "addr \<Rightarrow> intptr \<Rightarrow> addr" where
  "ptr_addw p n = p + 8 * n"

definition ptr_sub :: "addr \<Rightarrow> int \<Rightarrow> addr" where
  "ptr_sub p n = p - word_of_int (8 * n)"

definition ptr_subw :: "addr \<Rightarrow> intptr \<Rightarrow> addr" where
  "ptr_subw p n = p - 8 * n"

definition ptr_diff :: "addr \<Rightarrow> addr \<Rightarrow> intptr" where
  "ptr_diff p q = word_of_int (sint (p - q) div 8)"

text \<open>A pointer to a stack word is aligned to the word size.\<close>

definition word_aligned :: "addr \<Rightarrow> bool" where
  "word_aligned p = (p AND 7 = 0)"

section \<open>Frames and platform constants\<close>

text \<open>
  The \<open>frame\<close> class: the fields set by its seven-argument constructor
  \<open>frame(sp, unextended_sp, fp, pc, cb, oop_map, on_heap)\<close>.  Code blobs and oop maps
  are opaque pointers.
\<close>

record frame =
  sp :: addr
  unextended_sp :: addr
  fp :: addr
  pc :: addr
  cb :: addr
  oop_map :: addr
  on_heap :: bool

text \<open>
  The enum constants of \<open>frame\<close> that the x86 code refers to live in
  \<open>frame_x86.hpp\<close>, which is not among the sources; they are parameters of the
  model.  \<open>x86_64_offsets\<close> holds the values of the x86\_64 port.
\<close>

record frame_offsets =
  sender_sp_offset :: int
  link_offset :: int
  sender_sp_ret_address_offset :: int
  interpreter_frame_sender_sp_offset :: int
  interpreter_frame_last_sp_offset :: int
  interpreter_frame_locals_offset :: int
  interpreter_frame_initial_sp_offset :: int

definition x86_64_offsets :: frame_offsets where
  "x86_64_offsets = \<lparr> sender_sp_offset = 2, link_offset = 0,
     sender_sp_ret_address_offset = 1,
     interpreter_frame_sender_sp_offset = - 1,
     interpreter_frame_last_sp_offset = - 2,
     interpreter_frame_locals_offset = - 7,
     interpreter_frame_initial_sp_offset = - 9 \<rparr>"

text \<open>\<open>const int ContinuationHelper::frame_metadata = frame::sender_sp_offset\<close>\<close>

definition frame_metadata :: "frame_offsets \<Rightarrow> int" where
  "frame_metadata K = sender_sp_offset K"

text \<open>\<open>const int ContinuationHelper::align_wiggle = 1\<close>\<close>

definition align_wiggle :: int where
  "align_wiggle = 1"

text \<open>
  The two template parameters of the engines: the kind of the frame being
  processed (\<open>FKind::interpreted\<close>) and the kind of chunk a frame stream walks.
\<close>

datatype FKind = Interpreted | Compiled

fun interpreted :: "FKind \<Rightarrow> bool" where
  "interpreted Interpreted = True"
| "interpreted Compiled = False"

datatype chunk_frames = MIXED | COMPILED_ONLY

text \<open>
  The cursor of \<open>StackChunkFrameStream\<close>: the fields \<open>_end\<close>, \<open>_sp\<close>,
  \<open>_unextended_sp\<close>, \<open>_cb\<close> and \<open>_oopmap\<close>.
\<close>

record StackChunkFrameStream =
  strm_end :: addr
  strm_sp :: addr
  strm_unextended_sp :: addr
  strm_cb :: addr
  strm_oopmap :: addr

text \<open>
  Queries answered by parts of the VM that are not among the sources (the code
  cache, the interpreter, method metadata, the frame-kind helpers).  Each is a
  parameter; the theorems hold for every choice.
\<close>

record vm_queries =
  is_interpreted_frame :: "frame \<Rightarrow> bool"
  is_empty :: "frame \<Rightarrow> bool"
  max_locals :: "frame \<Rightarrow> int"
  stack_argsize :: "FKind \<Rightarrow> frame \<Rightarrow> int"
  FKind_size :: "FKind \<Rightarrow> frame \<Rightarrow> int"
  frame_bottom :: "frame \<Rightarrow> mem \<Rightarrow> addr"
  compiled_frame_stack_argsize :: "frame \<Rightarrow> int"
  callee_link_address :: "frame \<Rightarrow> addr"
  is_interpreted :: "StackChunkFrameStream \<Rightarrow> mem \<Rightarrow> bool"
  cont_interpreter_forced_preempt_return :: addr
  find_blob :: "addr \<Rightarrow> addr"

text \<open>
  Modelled from the spec: the accessors of \<open>frame\<close> declared in \<open>frame.hpp\<close>.
  A frame's metadata slots are addressed relative to its frame pointer
  (\<open>addr_at(index)\<close> is \<open>&fp()[index]\<close>, \<open>at\<close> reads that word) and \<open>set_sp\<close>
  assigns the stack pointer only.
\<close>

definition addr_at :: "frame \<Rightarrow> int \<Rightarrow> addr" where
  "addr_at f index = ptr_add (fp f) index"

definition at :: "frame \<Rightarrow> mem \<Rightarrow> int \<Rightarrow> intptr" where
  "at f m index = m (addr_at f index)"

definition set_sp :: "frame \<Rightarrow> addr \<Rightarrow> frame" where
  "set_sp f newsp = f\<lparr>sp := newsp\<rparr>"

section \<open>continuation\_x86.inline.hpp\<close>

subsection \<open>Link patching\<close>

definition patch_callee_link :: "vm_queries \<Rightarrow> frame \<Rightarrow> addr \<Rightarrow> mem \<Rightarrow> mem" where
  "patch_callee_link V f fp' m = m(callee_link_address V f := fp')"

definition patch_callee_link_relative :: "vm_queries \<Rightarrow> frame \<Rightarrow> addr \<Rightarrow> mem \<Rightarrow> mem" where
  "patch_callee_link_relative V f fp' m =
     (let la = callee_link_address V f;
          new_value = ptr_diff fp' la
      in m(la := new_value))"

text \<open>\<open>Freeze::patch_pd(hf, caller)\<close>\<close>

definition Freeze_patch_pd :: "vm_queries \<Rightarrow> frame \<Rightarrow> frame \<Rightarrow> mem \<Rightarrow> mem" where
  "Freeze_patch_pd V hf caller m =
     (if is_interpreted_frame V caller
      then patch_callee_link_relative V caller (fp caller) m
      else patch_callee_link V caller (fp caller) m)"

subsection \<open>Alignment helpers\<close>

text \<open>\<open>ContinuationHelper::frame_align_words\<close> under \<open>_LP64\<close>: \<open>size & 1\<close>.\<close>

definition frame_align_words :: "int \<Rightarrow> int" where
  "frame_align_words sz = sz AND 1"

subsection \<open>Relativizing and derelativizing interpreted-frame metadata\<close>

definition relativize_one :: "addr \<Rightarrow> addr \<Rightarrow> int \<Rightarrow> mem \<Rightarrow> mem" where
  "relativize_one vfp hfp offset m =
     (let a = ptr_add hfp offset;
          v = ptr_diff (m a) vfp
      in m(a := v))"

definition relativize_interpreted_frame_metadata ::
    "frame_offsets \<Rightarrow> vm_queries \<Rightarrow> frame \<Rightarrow> frame \<Rightarrow> mem \<Rightarrow> mem" where
  "relativize_interpreted_frame_metadata K V f hf m =
     (let vfp = fp f;
          hfp = fp hf;
          m1 = m(addr_at hf (interpreter_frame_last_sp_offset K) :=
                   ptr_diff (unextended_sp hf) (fp hf));
          m2 = m1(addr_at hf (interpreter_frame_locals_offset K) :=
                   word_of_int (sender_sp_offset K + max_locals V f - 1))
      in relativize_one vfp hfp (interpreter_frame_initial_sp_offset K) m2)"

definition derelativize_one :: "addr \<Rightarrow> int \<Rightarrow> mem \<Rightarrow> mem" where
  "derelativize_one fp' offset m =
     (let a = ptr_add fp' offset
      in m(a := ptr_addw fp' (m a)))"

definition derelativize_interpreted_frame_metadata ::
    "frame_offsets \<Rightarrow> frame \<Rightarrow> frame \<Rightarrow> mem \<Rightarrow> mem" where
  "derelativize_interpreted_frame_metadata K hf f m =
     (let vfp = fp f;
          m1 = derelativize_one vfp (interpreter_frame_last_sp_offset K) m
      in derelativize_one vfp (interpreter_frame_initial_sp_offset K) m1)"

subsection \<open>Freeze: top-of-chunk metadata and frame placement\<close>

text \<open>\<open>Freeze::set_top_frame_metadata_pd(hf)\<close>\<close>

definition set_top_frame_metadata_pd ::
    "frame_offsets \<Rightarrow> vm_queries \<Rightarrow> frame \<Rightarrow> mem \<Rightarrow> mem" where
  "set_top_frame_metadata_pd K V hf m =
     (let m1 = m(ptr_sub (sp hf) 1 := pc hf);
          fp_addr = ptr_sub (sp hf) (sender_sp_offset K)
      in m1(fp_addr := (if is_interpreted_frame V hf then ptr_diff (fp hf) fp_addr
                        else fp hf)))"

text \<open>
  \<open>Freeze::new_hframe<FKind>(f, caller)\<close> returns the heap frame; it also moves the
  caller's stack pointer and, for an interpreted frame, writes the locals slot of
  the heap frame.  The model returns the heap frame, the updated caller and the
  updated memory.
\<close>

definition new_hframe ::
    "frame_offsets \<Rightarrow> vm_queries \<Rightarrow> FKind \<Rightarrow> frame \<Rightarrow> frame \<Rightarrow> mem
      \<Rightarrow> frame \<times> frame \<times> mem" where
  "new_hframe K V kind f caller m =
     (if interpreted kind then
        let locals = max_locals V f;
            overlap_caller = (is_interpreted_frame V caller \<or> is_empty V caller);
            fp' = ptr_add (ptr_sub (unextended_sp caller) (locals + sender_sp_offset K))
                    (if overlap_caller then stack_argsize V Interpreted f else 0);
            sp' = ptr_subw fp' (ptr_diff (fp f) (unextended_sp f));
            caller' = set_sp caller (ptr_add fp' (sender_sp_offset K));
            hf = \<lparr> sp = sp', unextended_sp = sp', fp = fp', pc = pc f, cb = 0,
                   oop_map = 0, on_heap = True \<rparr>;
            m' = m(addr_at hf (interpreter_frame_locals_offset K) :=
                     word_of_int (sender_sp_offset K + locals - 1))
        in (hf, caller', m')
      else
        let fp' = m (ptr_sub (sp f) (sender_sp_offset K));
            fsize = FKind_size V kind f;
            sp0 = ptr_sub (unextended_sp caller) fsize;
            sp' = (if is_interpreted_frame V caller
                   then ptr_sub sp0 (stack_argsize V kind f) else sp0);
            caller' = set_sp caller (ptr_add sp' fsize)
        in (\<lparr> sp = sp', unextended_sp = sp', fp = fp', pc = pc f, cb = 0,
              oop_map = 0, on_heap = False \<rparr>, caller', m))"

subsection \<open>Thaw: frame placement, alignment, the forced-return frame\<close>

text \<open>
  \<open>Thaw::align(hf, vsp, caller, bottom)\<close> under \<open>_LP64\<close>; it returns the aligned
  pointer and moves the caller's stack pointer with it.
\<close>

definition Thaw_align :: "frame \<Rightarrow> addr \<Rightarrow> frame \<Rightarrow> bool \<Rightarrow> addr \<times> frame" where
  "Thaw_align hf vsp caller bottom =
     (if vsp AND 0xf \<noteq> 0
      then (ptr_sub vsp 1, set_sp caller (ptr_sub (sp caller) 1))
      else (vsp, caller))"

text \<open>
  \<open>Thaw::new_frame<FKind>(hf, caller, bottom)\<close>.  The four-argument frame
  constructor looks the code blob up from the pc (\<open>find_blob\<close>).
  \<open>const int fsize\<close> of the interpreted branch narrows a pointer difference to
  32 bits.
\<close>

definition new_frame ::
    "frame_offsets \<Rightarrow> vm_queries \<Rightarrow> FKind \<Rightarrow> frame \<Rightarrow> frame \<Rightarrow> bool \<Rightarrow> mem
      \<Rightarrow> frame \<times> frame \<times> mem" where
  "new_frame K V kind hf caller bottom m =
     (if interpreted kind then
        let hsp = unextended_sp hf;
            fsize = sint (ucast (ptr_diff (frame_bottom V hf m) (unextended_sp hf)) :: 32 word);
            vsp = ptr_sub (unextended_sp caller) fsize;
            fp' = ptr_addw vsp (ptr_diff (fp hf) hsp);
            caller' = set_sp caller (ptr_add fp' (sender_sp_offset K));
            f = \<lparr> sp = vsp, unextended_sp = vsp, fp = fp', pc = pc hf,
                  cb = find_blob V (pc hf), oop_map = 0, on_heap = False \<rparr>;
            offset = m (addr_at hf (interpreter_frame_locals_offset K));
            m' = m(addr_at f (interpreter_frame_locals_offset K) := ptr_addw fp' offset)
        in (f, caller', m')
      else
        let fsize = FKind_size V kind hf;
            vsp0 = ptr_sub (unextended_sp caller) fsize;
            (vsp, caller') =
               (if bottom \<or> is_interpreted_frame V caller then
                  let argsize = compiled_frame_stack_argsize V hf;
                      vsp1 = ptr_sub vsp0 argsize;
                      caller1 = set_sp caller (ptr_sub (sp caller) argsize)
                  in Thaw_align hf vsp1 caller1 bottom
                else (vsp0, caller));
            fp' = m (ptr_sub (sp hf) (sender_sp_offset K))
        in (\<lparr> sp = vsp, unextended_sp = vsp, fp = fp', pc = pc hf, cb = cb hf,
              oop_map = oop_map hf, on_heap = False \<rparr>, caller', m))"

text \<open>\<open>Thaw::push_interpreter_return_frame(sp)\<close> returns the new stack pointer.\<close>

definition push_interpreter_return_frame ::
    "frame_offsets \<Rightarrow> vm_queries \<Rightarrow> addr \<Rightarrow> mem \<Rightarrow> addr \<times> mem" where
  "push_interpreter_return_frame K V sp0 m =
     (let pc' = cont_interpreter_forced_preempt_return V;
          fp' = m (ptr_sub sp0 (sender_sp_offset K));
          sp1 = ptr_sub sp0 (frame_metadata K);
          m1 = m(ptr_sub sp1 (sender_sp_ret_address_offset K) := pc');
          m2 = m1(ptr_sub sp1 (sender_sp_offset K) := fp')
      in (sp1, m2))"

section \<open>instanceStackChunkKlass\_x86.inline.hpp: the frame stream\<close>

text \<open>
  Modelled from the spec: \<open>is_done()\<close> and \<open>unextended_sp()\<close> are declared with the
  stream class, outside the sources.  The stream is finite and terminates at the
  chunk's recorded end: it is done once the cursor has reached \<open>_end\<close>.  A stream
  over a compiled-only chunk keeps no separate unextended stack pointer.
\<close>

definition is_done :: "StackChunkFrameStream \<Rightarrow> bool" where
  "is_done s = (strm_end s \<le> strm_sp s)"

definition stream_unextended_sp :: "chunk_frames \<Rightarrow> StackChunkFrameStream \<Rightarrow> addr" where
  "stream_unextended_sp kind s = (if kind = MIXED then strm_unextended_sp s else strm_sp s)"

definition get_pc :: "StackChunkFrameStream \<Rightarrow> mem \<Rightarrow> addr" where
  "get_pc s m = m (ptr_sub (strm_sp s) 1)"

text \<open>\<open>StackChunkFrameStream::fp()\<close>\<close>

definition stream_fp ::
    "frame_offsets \<Rightarrow> vm_queries \<Rightarrow> chunk_frames \<Rightarrow> StackChunkFrameStream \<Rightarrow> mem \<Rightarrow> addr" where
  "stream_fp K V kind s m =
     (let fp_addr = ptr_sub (strm_sp s) (sender_sp_offset K)
      in if kind = MIXED \<and> is_interpreted V s m
         then ptr_addw fp_addr (m fp_addr)
         else m fp_addr)"

definition derelativize ::
    "frame_offsets \<Rightarrow> vm_queries \<Rightarrow> chunk_frames \<Rightarrow> StackChunkFrameStream \<Rightarrow> mem \<Rightarrow> int
      \<Rightarrow> addr" where
  "derelativize K V kind s m offset =
     (let fp' = stream_fp K V kind s m
      in ptr_addw fp' (m (ptr_add fp' offset)))"

definition unextended_sp_for_interpreter_frame ::
    "frame_offsets \<Rightarrow> vm_queries \<Rightarrow> chunk_frames \<Rightarrow> StackChunkFrameStream \<Rightarrow> mem \<Rightarrow> addr" where
  "unextended_sp_for_interpreter_frame K V kind s m =
     derelativize K V kind s m (interpreter_frame_last_sp_offset K)"

definition next_sp_for_interpreter_frame ::
    "frame_offsets \<Rightarrow> vm_queries \<Rightarrow> chunk_frames \<Rightarrow> StackChunkFrameStream \<Rightarrow> mem \<Rightarrow> addr" where
  "next_sp_for_interpreter_frame K V kind s m =
     (if strm_end s \<le> ptr_add (derelativize K V kind s m (interpreter_frame_locals_offset K)) 1
      then strm_end s
      else ptr_add (stream_fp K V kind s m) (sender_sp_offset K))"

definition next_for_interpreter_frame ::
    "frame_offsets \<Rightarrow> vm_queries \<Rightarrow> chunk_frames \<Rightarrow> StackChunkFrameStream \<Rightarrow> mem
      \<Rightarrow> StackChunkFrameStream" where
  "next_for_interpreter_frame K V kind s m =
     (if strm_end s \<le> ptr_add (derelativize K V kind s m (interpreter_frame_locals_offset K)) 1
      then s\<lparr> strm_unextended_sp := strm_end s, strm_sp := strm_end s \<rparr>
      else
        let fp' = stream_fp K V kind s m
        in s\<lparr> strm_unextended_sp :=
                 ptr_addw fp' (m (ptr_add fp' (interpreter_frame_sender_sp_offset K))),
               strm_sp := ptr_add fp' (sender_sp_offset K) \<rparr>)"

text \<open>
  \<open>StackChunkFrameStream::to_frame()\<close>.  The stream's \<open>pc()\<close> is \<open>get_pc()\<close>; the
  six-argument frame constructor leaves \<open>on_heap\<close> false.
\<close>

definition to_frame ::
    "frame_offsets \<Rightarrow> vm_queries \<Rightarrow> chunk_frames \<Rightarrow> StackChunkFrameStream \<Rightarrow> mem \<Rightarrow> frame" where
  "to_frame K V kind s m =
     (if is_done s
      then \<lparr> sp = strm_sp s, unextended_sp = strm_sp s, fp = 0, pc = 0, cb = 0,
             oop_map = 0, on_heap = True \<rparr>
      else if kind = MIXED \<and> \<not> is_interpreted V s m
      then \<lparr> sp = strm_sp s, unextended_sp = stream_unextended_sp kind s,
             fp = stream_fp K V kind s m, pc = get_pc s m, cb = strm_cb s,
             oop_map = strm_oopmap s, on_heap = False \<rparr>
      else \<lparr> sp = strm_sp s, unextended_sp = stream_unextended_sp kind s,
             fp = stream_fp K V kind s m, pc = get_pc s m, cb = strm_cb s,
             oop_map = strm_oopmap s, on_heap = True \<rparr>)"

section \<open>A sample VM\<close>

text \<open>
  A concrete choice of the VM queries and of frames, used to evaluate the model
  on explicit stacks: the interpreter's code occupies the addresses from
  \<open>0x1000\<close> up to \<open>0x2000\<close>, a frame is empty when its pc is null, and the callee's
  link slot lies \<open>sender_sp_offset\<close> words below the stack pointer.
\<close>

definition sample_vm :: vm_queries where
  "sample_vm = \<lparr>
     is_interpreted_frame = (\<lambda>f. 0x1000 \<le> pc f \<and> pc f < 0x2000),
     is_empty = (\<lambda>f. pc f = 0),
     max_locals = (\<lambda>f. 3),
     stack_argsize = (\<lambda>k f. 2),
     FKind_size = (\<lambda>k f. 6),
     frame_bottom = (\<lambda>f m. ptr_add (ptr_addw (fp f) (m (ptr_sub (fp f) 7))) 1),
     compiled_frame_stack_argsize = (\<lambda>f. 1),
     callee_link_address = (\<lambda>f. ptr_sub (sp f) 2),
     is_interpreted = (\<lambda>s m. strm_sp s < strm_end s
        \<and> 0x1000 \<le> m (ptr_sub (strm_sp s) 1) \<and> m (ptr_sub (strm_sp s) 1) < 0x2000),
     cont_interpreter_forced_preempt_return = 0x1800,
     find_blob = (\<lambda>p. 0) \<rparr>"

definition sample_frame :: "addr \<Rightarrow> addr \<Rightarrow> addr \<Rightarrow> frame" where
  "sample_frame sp0 fp0 pc0 =
     \<lparr> sp = sp0, unextended_sp = sp0, fp = fp0, pc = pc0, cb = 0, oop_map = 0,
       on_heap = False \<rparr>"

text \<open>
  A sample chunk holding one interpreted frame: the cursor is at \<open>0x2000\<close>, the
  return address below it lies in the interpreter, the relative link gives the
  frame pointer \<open>0x2040\<close>, and the locals slot records four words (two metadata
  words and three locals, less one).
\<close>

definition sample_chunk :: mem where
  "sample_chunk = (\<lambda>_. 0)(0x1FF8 := 0x1100, 0x1FF0 := 10, 0x2008 := 4, 0x2038 := 2)"

definition sample_stream :: "addr \<Rightarrow> StackChunkFrameStream" where
  "sample_stream e = \<lparr> strm_end = e, strm_sp = 0x2000, strm_unextended_sp = 0x2000,
     strm_cb = 0, strm_oopmap = 0 \<rparr>"

section \<open>Register maps\<close>

text \<open>
  Modelled from the spec: the general \<open>RegisterMap\<close> (\<open>registerMap.hpp\<close>) and
  \<open>frame::update_map_with_saved_link\<close> (\<open>frame_x86.inline.hpp\<close>) are not among
  the sources.  The general map is a mapping from register identity to save
  location, built incrementally during a walk: \<open>location\<close> looks a register up
  (null when nothing is recorded), \<open>set_location\<close> records a location, \<open>clear\<close>
  forgets all of them, and the saved-link update records the given link address
  for the frame-pointer register (both of its halves).  The flags \<open>update_map\<close>,
  \<open>in_cont\<close> and \<open>include_argument_oops\<close> are those the sources query.  The
  frame-pointer register (\<open>rbp\<close> on x86, \<open>rfp\<close> on AArch64) and its upper half
  are parameters \<open>rbp\<close> and \<open>rbp_next\<close> of an arbitrary register type.
\<close>

record 'r RegisterMap =
  locations :: "'r \<Rightarrow> addr"
  update_map :: bool
  in_cont :: bool
  include_argument_oops :: bool

definition RegisterMap_location :: "'r RegisterMap \<Rightarrow> 'r \<Rightarrow> addr \<Rightarrow> addr" where
  "RegisterMap_location rmap reg sp0 = locations rmap reg"

definition RegisterMap_set_location :: "'r RegisterMap \<Rightarrow> 'r \<Rightarrow> addr \<Rightarrow> 'r RegisterMap" where
  "RegisterMap_set_location rmap reg loc = rmap\<lparr> locations := (locations rmap)(reg := loc) \<rparr>"

definition RegisterMap_clear :: "'r RegisterMap \<Rightarrow> 'r RegisterMap" where
  "RegisterMap_clear rmap = rmap\<lparr> locations := (\<lambda>_. 0) \<rparr>"

definition update_map_with_saved_link ::
    "'r \<Rightarrow> 'r \<Rightarrow> 'r RegisterMap \<Rightarrow> addr \<Rightarrow> 'r RegisterMap" where
  "update_map_with_saved_link rbp rbp_next rmap link_addr =
     RegisterMap_set_location (RegisterMap_set_location rmap rbp link_addr) rbp_next link_addr"

text \<open>
  \<open>StackChunkFrameStream::update_reg_map_pd(RegisterMap* map)\<close>, the same for both
  chunk kinds.  Inside a continuation the link address handed to the saved-link
  update is the constant \<open>sender_sp_offset\<close> cast to a pointer.
\<close>

definition update_reg_map_pd ::
    "frame_offsets \<Rightarrow> 'r \<Rightarrow> 'r \<Rightarrow> StackChunkFrameStream \<Rightarrow> 'r RegisterMap \<Rightarrow> 'r RegisterMap" where
  "update_reg_map_pd K rbp rbp_next s rmap =
     (if update_map rmap
      then update_map_with_saved_link rbp rbp_next rmap
             (if in_cont rmap then word_of_int (sender_sp_offset K)
              else ptr_sub (strm_sp s) (sender_sp_offset K))
      else rmap)"

text \<open>
  \<open>SmallRegisterMap\<close>, identical on x86 and AArch64 up to the name of the
  frame-pointer register.  \<open>assert_is_rbp\<close> is compiled into debug builds only;
  \<open>debug\<close> tells whether it is, and a failed assertion ends the VM.
\<close>

datatype 'a debug_result = Assertion_failed | Returns 'a

definition assert_is_rbp :: "'r \<Rightarrow> 'r \<Rightarrow> 'r \<Rightarrow> bool" where
  "assert_is_rbp rbp rbp_next r = (r = rbp \<or> r = rbp_next)"

definition SmallRegisterMap_location ::
    "frame_offsets \<Rightarrow> 'r \<Rightarrow> 'r \<Rightarrow> bool \<Rightarrow> 'r \<Rightarrow> addr \<Rightarrow> addr debug_result" where
  "SmallRegisterMap_location K rbp rbp_next debug reg sp0 =
     (if debug \<and> \<not> assert_is_rbp rbp rbp_next reg then Assertion_failed
      else Returns (ptr_sub sp0 (sender_sp_offset K)))"

definition copy_to_RegisterMap ::
    "frame_offsets \<Rightarrow> 'r \<Rightarrow> 'r \<Rightarrow> 'r RegisterMap \<Rightarrow> addr \<Rightarrow> 'r RegisterMap" where
  "copy_to_RegisterMap K rbp rbp_next rmap sp0 =
     update_map_with_saved_link rbp rbp_next
       ((RegisterMap_clear rmap)\<lparr> include_argument_oops := False \<rparr>)
       (ptr_sub sp0 (sender_sp_offset K))"

section \<open>A sample register map\<close>

definition sample_map :: "bool \<Rightarrow> bool \<Rightarrow> int RegisterMap" where
  "sample_map u c = \<lparr> locations = (\<lambda>_. 0), update_map = u, in_cont = c,
     include_argument_oops = True \<rparr>"

section \<open>Pointer arithmetic facts\<close>

lemma word_aligned_dvd: "word_aligned p \<longleftrightarrow> 8 dvd uint p"
  using and_mask_dvd [of 3 p] by (simp add: word_aligned_def mask_eq_exp_minus_1)

lemma dvd8_sint:
  fixes x :: "64 word"
  assumes "8 dvd uint x"
  shows "8 dvd sint x"
proof -
  have "uint x = sint x mod 2 ^ 64"
    by (simp add: uint_sint take_bit_eq_mod)
  then have "uint x mod 8 = (sint x mod 2 ^ 64) mod 8"
    by simp
  also have "\<dots> = sint x mod 8"
    by (rule mod_mod_cancel) simp
  finally show ?thesis
    using assms by (simp add: dvd_eq_mod_eq_0)
qed

lemma dvd8_uint_diff:
  fixes p q :: "64 word"
  assumes "8 dvd uint p" and "8 dvd uint q"
  shows "8 dvd uint (p - q)"
proof -
  have d: "8 dvd uint p - uint q"
    using assms by (rule dvd_diff)
  have "uint (p - q) mod 8 = ((uint p - uint q) mod 2 ^ 64) mod 8"
    by (simp add: uint_word_ariths)
  also have "\<dots> = (uint p - uint q) mod 8"
    by (rule mod_mod_cancel) simp
  also have "\<dots> = 0"
    using d by (simp add: dvd_eq_mod_eq_0)
  finally show ?thesis
    by (simp add: dvd_eq_mod_eq_0)
qed

lemma ptr_diff_exact:
  assumes "8 dvd uint (p - q)"
  shows "8 * ptr_diff p q = p - q"
proof -
  have d: "8 dvd sint (p - q)"
    using assms by (rule dvd8_sint)
  have "8 * ptr_diff p q = word_of_int (8 * (sint (p - q) div 8))"
    by (simp add: ptr_diff_def)
  also have "8 * (sint (p - q) div 8) = sint (p - q)"
    using d by simp
  finally show ?thesis
    by simp
qed

lemma ptr_addw_ptr_diff:
  assumes "word_aligned p" and "word_aligned q"
  shows "ptr_addw q (ptr_diff p q) = p"
  using assms by (simp add: ptr_addw_def ptr_diff_exact dvd8_uint_diff word_aligned_dvd)

lemma ptr_addw_ptr_diff_shift:
  assumes "word_aligned a" and "word_aligned vfp"
  shows "ptr_addw fp' (ptr_diff a vfp) = fp' + (a - vfp)"
  using assms by (simp add: ptr_addw_def ptr_diff_exact dvd8_uint_diff word_aligned_dvd)

lemma ptr_add_ptr_sub: "ptr_add (ptr_sub p a) b = ptr_sub p (a - b)"
  by (simp add: ptr_add_def ptr_sub_def algebra_simps)

lemma ptr_sub_ptr_sub: "ptr_sub (ptr_sub p a) b = ptr_sub p (a + b)"
  by (simp add: ptr_sub_def algebra_simps)

lemma ptr_add_ptr_sub_cancel: "ptr_add (ptr_sub p a) a = p"
  by (simp add: ptr_add_def ptr_sub_def)

lemma dvd8_uint_mult8: "8 dvd uint (8 * w :: 64 word)"
proof -
  have "uint (8 * w) mod 8 = ((8 * uint w) mod 2 ^ 64) mod 8"
    by (simp add: uint_word_ariths)
  also have "\<dots> = (8 * uint w) mod 8"
    by (rule mod_mod_cancel) simp
  finally show ?thesis
    by (simp add: dvd_eq_mod_eq_0)
qed

lemma dvd8_uint_add:
  fixes p q :: "64 word"
  assumes "8 dvd uint p" and "8 dvd uint q"
  shows "8 dvd uint (p + q)"
proof -
  have d: "8 dvd uint p + uint q"
    using assms by (rule dvd_add)
  have "uint (p + q) mod 8 = ((uint p + uint q) mod 2 ^ 64) mod 8"
    by (simp add: uint_word_ariths)
  also have "\<dots> = (uint p + uint q) mod 8"
    by (rule mod_mod_cancel) simp
  also have "\<dots> = 0"
    using d by (simp add: dvd_eq_mod_eq_0)
  finally show ?thesis
    by (simp add: dvd_eq_mod_eq_0)
qed

lemma word_aligned_ptr_sub: "word_aligned p \<Longrightarrow> word_aligned (ptr_sub p n)"
  by (simp add: word_aligned_dvd ptr_sub_def dvd8_uint_diff dvd8_uint_mult8)

lemma word_aligned_ptr_add: "word_aligned p \<Longrightarrow> word_aligned (ptr_add p n)"
  by (simp add: word_aligned_dvd ptr_add_def dvd8_uint_add dvd8_uint_mult8)

lemma ptr_sub_neq:
  assumes "0 \<le> a" "a < b" "b < 2 ^ 61"
  shows "ptr_sub p a \<noteq> ptr_sub p b"
proof
  assume "ptr_sub p a = ptr_sub p b"
  then have "(word_of_int (8 * a) :: 64 word) = word_of_int (8 * b)"
    by (simp add: ptr_sub_def)
  moreover have "0 \<le> 8 * a \<and> 8 * a < 2 ^ LENGTH(64)" "0 \<le> 8 * b \<and> 8 * b < 2 ^ LENGTH(64)"
    using assms by simp_all
  ultimately have "8 * a = 8 * b"
    by (simp only: word_of_int_inj)
  then show False using assms by simp
qed

lemma and15_dvd: "(p :: 64 word) AND 0xf = 0 \<longleftrightarrow> 16 dvd uint p"
  using and_mask_dvd [of 4 p] by (simp add: mask_eq_exp_minus_1)

lemma ptr_sub_one: "ptr_sub p 1 = p - 8"
  by (simp add: ptr_sub_def)

lemma misaligned_minus_word:
  fixes vsp :: "64 word"
  assumes a8: "word_aligned vsp" and n16: "vsp AND 0xf \<noteq> 0"
  shows "(vsp - 8) AND 0xf = 0"
proof -
  have d8: "8 dvd uint vsp"
    using a8 by (simp add: word_aligned_dvd)
  have nd16: "\<not> 16 dvd uint vsp"
    using n16 by (simp add: and15_dvd)
  have m: "uint vsp mod 16 = 8"
    using d8 nd16 by presburger
  have ge: "8 \<le> uint vsp"
    using m uint_ge_0 [of vsp] by presburger
  then have "(8 :: 64 word) \<le> vsp"
    by (simp add: word_le_def)
  then have "uint (vsp - 8) = uint vsp - 8"
    by (simp add: uint_minus_simple_alt)
  then have "16 dvd uint (vsp - 8)"
    using m by presburger
  then show ?thesis
    by (simp add: and15_dvd)
qed

lemma Thaw_align_result:
  assumes "word_aligned vsp"
  shows "fst (Thaw_align hf vsp caller bottom) AND 0xf = 0"
  using assms by (simp add: Thaw_align_def ptr_sub_one misaligned_minus_word)

lemma frame_align_words_bound: "frame_align_words n = 0 \<or> frame_align_words n = 1"
  unfolding frame_align_words_def and_one_eq by presburger

lemma ptr_add_strict:
  assumes pos: "0 < n" "n < 2 ^ 61" and nowrap: "p \<le> ptr_add p n"
  shows "p < ptr_add p n"
proof -
  have "(word_of_int (8 * n) :: 64 word) \<noteq> word_of_int 0"
  proof
    assume "(word_of_int (8 * n) :: 64 word) = word_of_int 0"
    moreover have "0 \<le> 8 * n \<and> 8 * n < 2 ^ LENGTH(64)" "0 \<le> (0::int) \<and> (0::int) < 2 ^ LENGTH(64)"
      using pos by simp_all
    ultimately have "8 * n = 0"
      by (simp only: word_of_int_inj)
    with pos show False by simp
  qed
  then have "ptr_add p n \<noteq> p"
    by (simp add: ptr_add_def)
  with nowrap show ?thesis
    by simp
qed

lemma distance_decreases:
  fixes a b e :: "64 word"
  assumes "a < b" and "b \<le> e"
  shows "unat (e - b) < unat (e - a)"
proof -
  have "a \<le> e"
    using assms by simp
  then have "unat (e - a) = unat e - unat a"
    by (simp add: unat_sub)
  moreover have "unat (e - b) = unat e - unat b"
    using assms by (simp add: unat_sub)
  moreover have "unat a < unat b" "unat b \<le> unat e"
    using assms by (simp_all add: word_less_nat_alt word_le_nat_alt)
  ultimately show ?thesis
    by simp
qed

lemma sample_stream_fp:
  "0x2000 < e \<Longrightarrow> stream_fp x86_64_offsets sample_vm MIXED (sample_stream e) sample_chunk = 0x2040"
  by (simp add: stream_fp_def Let_def x86_64_offsets_def sample_vm_def sample_stream_def
      sample_chunk_def ptr_sub_def ptr_addw_def)

lemma sample_stream_locals:
  "0x2000 < e \<Longrightarrow> derelativize x86_64_offsets sample_vm MIXED (sample_stream e) sample_chunk
      (interpreter_frame_locals_offset x86_64_offsets) = 0x2060"
  by (simp add: derelativize_def sample_stream_fp Let_def)
     (simp add: x86_64_offsets_def sample_chunk_def ptr_add_def ptr_addw_def)

lemma ptr_subw_of_int: "ptr_subw p (word_of_int n) = ptr_sub p n"
  by (simp add: ptr_subw_def ptr_sub_def)

section \<open>Relativization is position independent\<close>

text \<open>
  Claim C1.  \<open>relativize_one\<close> at the physical frame pointer \<open>vfp\<close> replaces the
  absolute address held in the chunk copy's slot \<open>hfp + off\<close> by that address
  minus \<open>vfp\<close> (a word count whose byte distance is exactly \<open>a - vfp\<close>) and touches
  no other word; \<open>derelativize_one\<close> at a destination frame pointer \<open>fp'\<close> replaces
  the stored offset \<open>d\<close> by \<open>fp' + d\<close> and touches no other word.  Hence the
  thawed slot lies at the same distance from \<open>fp'\<close> as the original address lay
  from \<open>vfp\<close>, whatever the chunk's base \<open>hfp\<close> was: thawing from a chunk whose
  words were copied to another base \<open>hfp2\<close> (memory \<open>mR\<close>, thawed into \<open>mB\<close>)
  gives the same slot contents as thawing from the original base (thawed into
  \<open>mA\<close>).  Both the stored address and \<open>vfp\<close> are pointers to stack words.
\<close>

theorem relativize_derelativize_position_independent:
  fixes m mA mR mB :: mem
  assumes al: "word_aligned (m (ptr_add hfp off))" "word_aligned vfp"
      and thawA: "mA (ptr_add fp' off) = relativize_one vfp hfp off m (ptr_add hfp off)"
      and reloc: "mR (ptr_add hfp2 off) = relativize_one vfp hfp off m (ptr_add hfp off)"
      and thawB: "mB (ptr_add fp' off) = mR (ptr_add hfp2 off)"
  shows "relativize_one vfp hfp off m (ptr_add hfp off) = ptr_diff (m (ptr_add hfp off)) vfp
       \<and> 8 * relativize_one vfp hfp off m (ptr_add hfp off) = m (ptr_add hfp off) - vfp
       \<and> (\<forall>p. p \<noteq> ptr_add hfp off \<longrightarrow> relativize_one vfp hfp off m p = m p)
       \<and> derelativize_one fp' off mA (ptr_add fp' off) = ptr_addw fp' (mA (ptr_add fp' off))
       \<and> (\<forall>p. p \<noteq> ptr_add fp' off \<longrightarrow> derelativize_one fp' off mA p = mA p)
       \<and> derelativize_one fp' off mA (ptr_add fp' off) - fp' = m (ptr_add hfp off) - vfp
       \<and> derelativize_one fp' off mB (ptr_add fp' off)
           = derelativize_one fp' off mA (ptr_add fp' off)"
proof -
  let ?a = "m (ptr_add hfp off)"
  have rel: "relativize_one vfp hfp off m (ptr_add hfp off) = ptr_diff ?a vfp"
    by (simp add: relativize_one_def Let_def)
  have exact: "8 * ptr_diff ?a vfp = ?a - vfp"
    using al by (simp add: ptr_diff_exact dvd8_uint_diff word_aligned_dvd)
  have frame1: "\<forall>p. p \<noteq> ptr_add hfp off \<longrightarrow> relativize_one vfp hfp off m p = m p"
    by (simp add: relativize_one_def Let_def)
  have der: "derelativize_one fp' off mA (ptr_add fp' off)
      = ptr_addw fp' (mA (ptr_add fp' off))"
    by (simp add: derelativize_one_def Let_def)
  have frame2: "\<forall>p. p \<noteq> ptr_add fp' off \<longrightarrow> derelativize_one fp' off mA p = mA p"
    by (simp add: derelativize_one_def Let_def)
  have rt: "derelativize_one fp' off mA (ptr_add fp' off) - fp' = ?a - vfp"
    using exact by (simp add: der thawA rel ptr_addw_def)
  have same: "derelativize_one fp' off mB (ptr_add fp' off)
      = derelativize_one fp' off mA (ptr_add fp' off)"
    by (simp add: derelativize_one_def Let_def thawA thawB reloc)
  show ?thesis
    using rel exact frame1 der frame2 rt same by simp
qed

theorem relativize_derelativize_position_independent_witness:
  "word_aligned (((\<lambda>_. 0)(ptr_add 0x2050 (- 9) := 0x7FA8)) (ptr_add 0x2050 (- 9)))
   \<and> word_aligned 0x7FF0
   \<and> relativize_one 0x7FF0 0x2050 (- 9) ((\<lambda>_. 0)(ptr_add 0x2050 (- 9) := 0x7FA8))
        (ptr_add 0x2050 (- 9)) = - 9
   \<and> derelativize_one 0x9FF0 (- 9) ((\<lambda>_. 0)(ptr_add 0x9FF0 (- 9) := - 9))
        (ptr_add 0x9FF0 (- 9)) - 0x9FF0 = 0x7FA8 - 0x7FF0"
proof -
  let ?m = "(\<lambda>_. 0)(ptr_add 0x2050 (- 9) := 0x7FA8) :: mem"
  let ?t = "(\<lambda>_. 0)(ptr_add 0x9FF0 (- 9) := - 9) :: mem"
  let ?r = "(\<lambda>_. 0)(ptr_add 0x3050 (- 9) := - 9) :: mem"
  have a1: "word_aligned (?m (ptr_add 0x2050 (- 9)))"
    by (simp add: word_aligned_def)
  have a2: "word_aligned 0x7FF0"
    by (simp add: word_aligned_def)
  have r: "relativize_one 0x7FF0 0x2050 (- 9) ?m (ptr_add 0x2050 (- 9)) = - 9"
    by (simp add: relativize_one_def Let_def ptr_diff_def ptr_add_def)
  have h1: "?t (ptr_add 0x9FF0 (- 9))
      = relativize_one 0x7FF0 0x2050 (- 9) ?m (ptr_add 0x2050 (- 9))"
    by (simp add: r)
  have h2: "?r (ptr_add 0x3050 (- 9))
      = relativize_one 0x7FF0 0x2050 (- 9) ?m (ptr_add 0x2050 (- 9))"
    by (simp add: r)
  have h3: "?t (ptr_add 0x9FF0 (- 9)) = ?r (ptr_add 0x3050 (- 9))"
    by simp
  show ?thesis
    using relativize_derelativize_position_independent
      [where m = ?m and hfp = "0x2050" and off = "- 9" and vfp = "0x7FF0" and mA = ?t
         and fp' = "0x9FF0" and mR = ?r and ?hfp2.0 = "0x3050" and mB = ?t, OF a1 a2 h1 h2 h3]
      a1 a2 r
    by (simp add: ptr_addw_def)
qed

section \<open>Freeze: placing a frame in the chunk\<close>

text \<open>
  Claim C2.  \<open>new_hframe\<close> places a frame relative to its caller's position in the
  chunk.  For an interpreted frame the chunk frame pointer is the caller's
  unextended sp minus (\<open>max_locals\<close> plus the metadata word count), with the
  frame's stack-argument size added back exactly when the caller is interpreted
  or empty; the caller's sp is moved to that frame pointer plus the metadata.
  For a compiled frame the chunk sp is the caller's unextended sp minus the fixed
  frame size, reduced further by the stack-argument size exactly when the caller
  is interpreted (an empty caller does not count); the caller's sp is moved to
  that sp plus the frame size.
\<close>

theorem new_hframe_placement:
  "fp (fst (new_hframe K V Interpreted f caller m))
     = ptr_sub (unextended_sp caller)
         (max_locals V f + frame_metadata K
            - (if is_interpreted_frame V caller \<or> is_empty V caller
               then stack_argsize V Interpreted f else 0))
   \<and> sp (fst (snd (new_hframe K V Interpreted f caller m)))
     = ptr_add (fp (fst (new_hframe K V Interpreted f caller m))) (frame_metadata K)
   \<and> sp (fst (new_hframe K V Compiled f caller m))
     = ptr_sub (unextended_sp caller)
         (FKind_size V Compiled f
            + (if is_interpreted_frame V caller then stack_argsize V Compiled f else 0))
   \<and> sp (fst (snd (new_hframe K V Compiled f caller m)))
     = ptr_add (sp (fst (new_hframe K V Compiled f caller m))) (FKind_size V Compiled f)"
  by (simp add: new_hframe_def Let_def frame_metadata_def set_sp_def ptr_add_ptr_sub
      ptr_sub_ptr_sub)

theorem new_hframe_placement_witness:
  "fp (fst (new_hframe x86_64_offsets sample_vm Interpreted
              (sample_frame 0x7F00 0x7F40 0x1100) (sample_frame 0x5000 0x5040 0x1200)
              (\<lambda>_. 0))) = 0x4FE8
   \<and> fp (fst (new_hframe x86_64_offsets sample_vm Interpreted
              (sample_frame 0x7F00 0x7F40 0x1100) (sample_frame 0x5000 0x5040 0x3000)
              (\<lambda>_. 0))) = 0x4FD8
   \<and> sp (fst (new_hframe x86_64_offsets sample_vm Compiled
              (sample_frame 0x7F00 0x7F40 0x3100) (sample_frame 0x5000 0x5040 0x1200)
              (\<lambda>_. 0))) = 0x4FC0
   \<and> sp (fst (new_hframe x86_64_offsets sample_vm Compiled
              (sample_frame 0x7F00 0x7F40 0x3100) (sample_frame 0x5000 0x5040 0)
              (\<lambda>_. 0))) = 0x4FD0"
  using new_hframe_placement [of x86_64_offsets sample_vm "sample_frame 0x7F00 0x7F40 0x1100"
      "sample_frame 0x5000 0x5040 0x1200" "\<lambda>_. 0"]
    new_hframe_placement [of x86_64_offsets sample_vm "sample_frame 0x7F00 0x7F40 0x1100"
      "sample_frame 0x5000 0x5040 0x3000" "\<lambda>_. 0"]
    new_hframe_placement [of x86_64_offsets sample_vm "sample_frame 0x7F00 0x7F40 0x3100"
      "sample_frame 0x5000 0x5040 0x1200" "\<lambda>_. 0"]
    new_hframe_placement [of x86_64_offsets sample_vm "sample_frame 0x7F00 0x7F40 0x3100"
      "sample_frame 0x5000 0x5040 0" "\<lambda>_. 0"]
  by (simp add: x86_64_offsets_def sample_vm_def sample_frame_def frame_metadata_def
      ptr_sub_def)

section \<open>Freeze: patching the link to the caller\<close>

text \<open>
  Claim C3.  \<open>Freeze::patch_pd\<close> writes the callee link slot of the caller and no
  other word: the slot receives the caller's frame pointer minus the slot's own
  address (a word count) when the caller is interpreted, and the caller's
  absolute frame pointer otherwise.
\<close>

theorem Freeze_patch_pd_link:
  "Freeze_patch_pd V hf caller m (callee_link_address V caller)
     = (if is_interpreted_frame V caller
        then ptr_diff (fp caller) (callee_link_address V caller)
        else fp caller)
   \<and> (\<forall>p. p \<noteq> callee_link_address V caller \<longrightarrow> Freeze_patch_pd V hf caller m p = m p)"
  by (simp add: Freeze_patch_pd_def patch_callee_link_relative_def patch_callee_link_def Let_def)

theorem Freeze_patch_pd_link_witness:
  "Freeze_patch_pd sample_vm (sample_frame 0x4F00 0x4F40 0x1100)
      (sample_frame 0x5000 0x5040 0x1200) (\<lambda>_. 0) 0x4FF0 = 10
   \<and> Freeze_patch_pd sample_vm (sample_frame 0x4F00 0x4F40 0x1100)
      (sample_frame 0x5000 0x5040 0x3000) (\<lambda>_. 0) 0x4FF0 = 0x5040
   \<and> Freeze_patch_pd sample_vm (sample_frame 0x4F00 0x4F40 0x1100)
      (sample_frame 0x5000 0x5040 0x1200) (\<lambda>_. 0) 0x4FE8 = 0"
  using Freeze_patch_pd_link [of sample_vm "sample_frame 0x4F00 0x4F40 0x1100"
      "sample_frame 0x5000 0x5040 0x1200" "\<lambda>_. 0"]
    Freeze_patch_pd_link [of sample_vm "sample_frame 0x4F00 0x4F40 0x1100"
      "sample_frame 0x5000 0x5040 0x3000" "\<lambda>_. 0"]
  by (simp add: sample_vm_def sample_frame_def ptr_sub_def ptr_diff_def)

section \<open>The top frame of a chunk is read back as it was stored\<close>

text \<open>
  Claim C4.  After \<open>set_top_frame_metadata_pd hf\<close>, a frame stream whose cursor is
  at \<open>sp hf\<close> recovers the stored values: \<open>get_pc\<close> is the pc of \<open>hf\<close>; the link
  slot at \<open>sp - sender_sp_offset\<close> holds the frame pointer relative to the slot
  for an interpreted frame and the absolute frame pointer for a compiled one; and
  \<open>fp()\<close> returns the frame pointer of \<open>hf\<close> in both cases.  The stream
  classifies the frame as \<open>hf\<close> is classified (a compiled-only stream is never
  built over an interpreted frame), the return-address slot and the link slot
  are different words, and an interpreted frame's pointers are word aligned.
\<close>

theorem top_frame_metadata_roundtrip:
  assumes slots: "1 < sender_sp_offset K" "sender_sp_offset K < 2 ^ 61"
      and tier: "(kind = MIXED \<and> is_interpreted V s (set_top_frame_metadata_pd K V hf m))
                  = is_interpreted_frame V hf"
      and cursor: "strm_sp s = sp hf"
      and al: "is_interpreted_frame V hf \<longrightarrow> word_aligned (fp hf) \<and> word_aligned (sp hf)"
  shows "get_pc s (set_top_frame_metadata_pd K V hf m) = pc hf
       \<and> set_top_frame_metadata_pd K V hf m (ptr_sub (sp hf) (sender_sp_offset K))
           = (if is_interpreted_frame V hf
              then ptr_diff (fp hf) (ptr_sub (sp hf) (sender_sp_offset K))
              else fp hf)
       \<and> stream_fp K V kind s (set_top_frame_metadata_pd K V hf m) = fp hf"
proof -
  let ?m' = "set_top_frame_metadata_pd K V hf m"
  let ?la = "ptr_sub (sp hf) (sender_sp_offset K)"
  have ne: "ptr_sub (sp hf) 1 \<noteq> ?la"
    using slots by (intro ptr_sub_neq) simp_all
  have pc_ok: "get_pc s ?m' = pc hf"
    using ne by (simp add: get_pc_def set_top_frame_metadata_pd_def Let_def cursor)
  have link: "?m' ?la = (if is_interpreted_frame V hf then ptr_diff (fp hf) ?la else fp hf)"
    by (simp add: set_top_frame_metadata_pd_def Let_def)
  have fp_ok: "stream_fp K V kind s ?m' = fp hf"
  proof (cases "is_interpreted_frame V hf")
    case True
    with al have "word_aligned (fp hf)" and "word_aligned ?la"
      by (simp_all add: word_aligned_ptr_sub)
    then have "ptr_addw ?la (ptr_diff (fp hf) ?la) = fp hf"
      by (rule ptr_addw_ptr_diff)
    with True tier show ?thesis
      by (simp add: stream_fp_def Let_def cursor link)
  next
    case False
    with tier show ?thesis
      by (auto simp add: stream_fp_def Let_def cursor link)
  qed
  show ?thesis
    using pc_ok link fp_ok by simp
qed

theorem top_frame_metadata_roundtrip_witness:
  "1 < sender_sp_offset x86_64_offsets \<and> sender_sp_offset x86_64_offsets < 2 ^ 61
   \<and> is_interpreted_frame sample_vm (sample_frame 0x4F00 0x4F40 0x1100)
   \<and> word_aligned 0x4F40 \<and> word_aligned 0x4F00
   \<and> get_pc \<lparr> strm_end = 0x5000, strm_sp = 0x4F00, strm_unextended_sp = 0x4F00,
              strm_cb = 0, strm_oopmap = 0 \<rparr>
        (set_top_frame_metadata_pd x86_64_offsets sample_vm
           (sample_frame 0x4F00 0x4F40 0x1100) (\<lambda>_. 0)) = 0x1100
   \<and> set_top_frame_metadata_pd x86_64_offsets sample_vm
           (sample_frame 0x4F00 0x4F40 0x1100) (\<lambda>_. 0) 0x4EF0 = 10
   \<and> stream_fp x86_64_offsets sample_vm MIXED
        \<lparr> strm_end = 0x5000, strm_sp = 0x4F00, strm_unextended_sp = 0x4F00,
          strm_cb = 0, strm_oopmap = 0 \<rparr>
        (set_top_frame_metadata_pd x86_64_offsets sample_vm
           (sample_frame 0x4F00 0x4F40 0x1100) (\<lambda>_. 0)) = 0x4F40"
proof -
  let ?hf = "sample_frame 0x4F00 0x4F40 0x1100"
  let ?s = "\<lparr> strm_end = 0x5000, strm_sp = 0x4F00, strm_unextended_sp = 0x4F00,
              strm_cb = 0, strm_oopmap = 0 \<rparr>"
  let ?m' = "set_top_frame_metadata_pd x86_64_offsets sample_vm ?hf (\<lambda>_. 0)"
  have k: "1 < sender_sp_offset x86_64_offsets" "sender_sp_offset x86_64_offsets < 2 ^ 61"
    by (simp_all add: x86_64_offsets_def)
  have i: "is_interpreted_frame sample_vm ?hf"
    by (simp add: sample_vm_def sample_frame_def)
  have pcv: "?m' (ptr_sub 0x4F00 1) = 0x1100"
    by (simp add: set_top_frame_metadata_pd_def Let_def sample_frame_def x86_64_offsets_def
        ptr_sub_def)
  have t: "(MIXED = MIXED \<and> is_interpreted sample_vm ?s ?m') = is_interpreted_frame sample_vm ?hf"
    using pcv by (simp add: sample_vm_def sample_frame_def)
  have c: "strm_sp ?s = sp ?hf"
    by (simp add: sample_frame_def)
  have a: "word_aligned 0x4F40" "word_aligned 0x4F00"
    by (simp_all add: word_aligned_def)
  then have al: "is_interpreted_frame sample_vm ?hf \<longrightarrow> word_aligned (fp ?hf) \<and> word_aligned (sp ?hf)"
    by (simp add: sample_frame_def)
  show ?thesis
    using top_frame_metadata_roundtrip [OF k t c al] k i a
    by (simp add: sample_frame_def x86_64_offsets_def ptr_sub_def ptr_diff_def)
qed

section \<open>Thaw: aligning a compiled frame\<close>

text \<open>
  Claim C6.  When a compiled frame is thawed below the entry frame (\<open>bottom\<close>) or
  below an interpreted caller, \<open>new_frame\<close> passes the destination stack pointer
  through \<open>Thaw::align\<close>.  The align step lowers a pointer by exactly one word
  when it is not 16-byte aligned and leaves it unchanged otherwise (moving the
  caller's sp along), so at most one padding word is inserted, and the resulting
  stack pointer of the thawed frame is 16-byte aligned.  Stack pointers are
  pointers to stack words, hence word aligned.  \<open>frame_align_words\<close> likewise
  never asks for more than one word.
\<close>

theorem thaw_compiled_frame_alignment:
  assumes al: "word_aligned vsp"
      and cal: "word_aligned (unextended_sp caller)"
      and ctx: "bottom \<or> is_interpreted_frame V caller"
  shows "fst (Thaw_align hf vsp caller bottom)
           = (if vsp AND 0xf = 0 then vsp else ptr_sub vsp 1)
       \<and> sp (snd (Thaw_align hf vsp caller bottom))
           = (if vsp AND 0xf = 0 then sp caller else ptr_sub (sp caller) 1)
       \<and> fst (Thaw_align hf vsp caller bottom) AND 0xf = 0
       \<and> sp (fst (new_frame K V Compiled hf caller bottom m))
           = fst (Thaw_align hf
               (ptr_sub (unextended_sp caller)
                  (FKind_size V Compiled hf + compiled_frame_stack_argsize V hf))
               (set_sp caller (ptr_sub (sp caller) (compiled_frame_stack_argsize V hf)))
               bottom)
       \<and> sp (fst (new_frame K V Compiled hf caller bottom m))
           = (if ptr_sub (unextended_sp caller)
                   (FKind_size V Compiled hf + compiled_frame_stack_argsize V hf) AND 0xf = 0
              then ptr_sub (unextended_sp caller)
                     (FKind_size V Compiled hf + compiled_frame_stack_argsize V hf)
              else ptr_sub (unextended_sp caller)
                     (FKind_size V Compiled hf + compiled_frame_stack_argsize V hf + 1))
       \<and> sp (fst (new_frame K V Compiled hf caller bottom m)) AND 0xf = 0
       \<and> (frame_align_words n = 0 \<or> frame_align_words n = 1)"
proof -
  let ?base = "ptr_sub (unextended_sp caller)
                  (FKind_size V Compiled hf + compiled_frame_stack_argsize V hf)"
  let ?c1 = "set_sp caller (ptr_sub (sp caller) (compiled_frame_stack_argsize V hf))"
  have a: "fst (Thaw_align hf vsp caller bottom)
           = (if vsp AND 0xf = 0 then vsp else ptr_sub vsp 1)"
    by (simp add: Thaw_align_def)
  have b: "sp (snd (Thaw_align hf vsp caller bottom))
           = (if vsp AND 0xf = 0 then sp caller else ptr_sub (sp caller) 1)"
    by (simp add: Thaw_align_def set_sp_def)
  have c: "fst (Thaw_align hf vsp caller bottom) AND 0xf = 0"
    using al by (rule Thaw_align_result)
  have d: "sp (fst (new_frame K V Compiled hf caller bottom m)) = fst (Thaw_align hf ?base ?c1 bottom)"
    using ctx by (simp add: new_frame_def Let_def ptr_sub_ptr_sub split: prod.splits)
  have "word_aligned ?base"
    using cal by (rule word_aligned_ptr_sub)
  then have e: "fst (Thaw_align hf ?base ?c1 bottom) AND 0xf = 0"
    by (rule Thaw_align_result)
  have f: "fst (Thaw_align hf ?base ?c1 bottom)
      = (if ?base AND 0xf = 0 then ?base
         else ptr_sub (unextended_sp caller)
                (FKind_size V Compiled hf + compiled_frame_stack_argsize V hf + 1))"
    by (simp add: Thaw_align_def ptr_sub_ptr_sub)
  show ?thesis
    using a b c d e f frame_align_words_bound [of n] by simp
qed

theorem thaw_compiled_frame_alignment_witness:
  "word_aligned 0x7FE8 \<and> word_aligned 0x8000
   \<and> is_interpreted_frame sample_vm (sample_frame 0x8000 0x8040 0x1200)
   \<and> fst (Thaw_align (sample_frame 0x4F00 0x4F40 0x3100) 0x7FE8
            (sample_frame 0x8000 0x8040 0x1200) False) = 0x7FE0
   \<and> sp (fst (new_frame x86_64_offsets sample_vm Compiled (sample_frame 0x4F00 0x4F40 0x3100)
            (sample_frame 0x8000 0x8040 0x1200) False (\<lambda>_. 0))) = 0x7FC0"
proof -
  have a: "word_aligned 0x7FE8" "word_aligned 0x8000"
    by (simp_all add: word_aligned_def)
  have a': "word_aligned (unextended_sp (sample_frame 0x8000 0x8040 0x1200))"
    by (simp add: word_aligned_def sample_frame_def)
  have i: "is_interpreted_frame sample_vm (sample_frame 0x8000 0x8040 0x1200)"
    by (simp add: sample_vm_def sample_frame_def)
  then have c: "False \<or> is_interpreted_frame sample_vm (sample_frame 0x8000 0x8040 0x1200)"
    by simp
  show ?thesis
    using thaw_compiled_frame_alignment [OF a(1) a' c, of "sample_frame 0x4F00 0x4F40 0x3100"
        x86_64_offsets "\<lambda>_. 0" 0] a i
    by (simp add: sample_vm_def sample_frame_def ptr_sub_def Thaw_align_def set_sp_def)
qed

section \<open>Thaw: the forced-return frame\<close>

text \<open>
  Claim C8.  \<open>push_interpreter_return_frame sp\<close> builds the one frame that thaw
  creates itself.  It returns \<open>sp\<close> lowered by the frame-metadata word count,
  stores the pc of the interpreter's forced-preempt return stub in the new
  frame's return-address slot, stores in the new frame's link slot the frame
  pointer it read at \<open>sp - sender_sp_offset\<close> before the push, and changes no
  other word.  The return-address slot lies above the link slot, as on x86\_64.
\<close>

theorem push_interpreter_return_frame_effect:
  assumes slots: "0 \<le> sender_sp_ret_address_offset K"
      "sender_sp_ret_address_offset K < sender_sp_offset K" "sender_sp_offset K < 2 ^ 61"
  shows "fst (push_interpreter_return_frame K V sp0 m) = ptr_sub sp0 (frame_metadata K)
       \<and> snd (push_interpreter_return_frame K V sp0 m)
            (ptr_sub (fst (push_interpreter_return_frame K V sp0 m))
               (sender_sp_ret_address_offset K))
           = cont_interpreter_forced_preempt_return V
       \<and> snd (push_interpreter_return_frame K V sp0 m)
            (ptr_sub (fst (push_interpreter_return_frame K V sp0 m)) (sender_sp_offset K))
           = m (ptr_sub sp0 (sender_sp_offset K))
       \<and> (\<forall>p. p \<noteq> ptr_sub (fst (push_interpreter_return_frame K V sp0 m))
                      (sender_sp_ret_address_offset K)
              \<and> p \<noteq> ptr_sub (fst (push_interpreter_return_frame K V sp0 m))
                      (sender_sp_offset K)
              \<longrightarrow> snd (push_interpreter_return_frame K V sp0 m) p = m p)"
proof -
  let ?sp1 = "ptr_sub sp0 (frame_metadata K)"
  have ne: "ptr_sub ?sp1 (sender_sp_ret_address_offset K) \<noteq> ptr_sub ?sp1 (sender_sp_offset K)"
    using slots by (rule ptr_sub_neq)
  show ?thesis
    using ne by (simp add: push_interpreter_return_frame_def Let_def)
qed

theorem push_interpreter_return_frame_effect_witness:
  "0 \<le> sender_sp_ret_address_offset x86_64_offsets
   \<and> sender_sp_ret_address_offset x86_64_offsets < sender_sp_offset x86_64_offsets
   \<and> sender_sp_offset x86_64_offsets < 2 ^ 61
   \<and> fst (push_interpreter_return_frame x86_64_offsets sample_vm 0x8000
             ((\<lambda>_. 0)(0x7FF0 := 0x8040))) = 0x7FF0
   \<and> snd (push_interpreter_return_frame x86_64_offsets sample_vm 0x8000
             ((\<lambda>_. 0)(0x7FF0 := 0x8040))) 0x7FE8 = 0x1800
   \<and> snd (push_interpreter_return_frame x86_64_offsets sample_vm 0x8000
             ((\<lambda>_. 0)(0x7FF0 := 0x8040))) 0x7FE0 = 0x8040
   \<and> snd (push_interpreter_return_frame x86_64_offsets sample_vm 0x8000
             ((\<lambda>_. 0)(0x7FF0 := 0x8040))) 0x7FF0 = 0x8040"
proof -
  have k: "0 \<le> sender_sp_ret_address_offset x86_64_offsets"
    "sender_sp_ret_address_offset x86_64_offsets < sender_sp_offset x86_64_offsets"
    "sender_sp_offset x86_64_offsets < 2 ^ 61"
    by (simp_all add: x86_64_offsets_def)
  show ?thesis
    using push_interpreter_return_frame_effect [OF k, of sample_vm "0x8000"
        "(\<lambda>_. 0)(0x7FF0 := 0x8040)"] k
    by (simp add: push_interpreter_return_frame_def Let_def x86_64_offsets_def sample_vm_def
        frame_metadata_def ptr_sub_def)
qed

section \<open>A finished stream yields the empty frame\<close>

text \<open>
  Claim C10.  Once the stream is done, \<open>to_frame\<close> still returns a frame: the
  empty sentinel whose frame pointer, pc, code blob and oop map are null and
  whose sp and unextended sp are the cursor's final position.  The result is the
  same for every memory, every VM and every chunk kind: no frame word, in or
  past the chunk, is consulted.
\<close>

theorem to_frame_done_sentinel:
  assumes "is_done s"
  shows "to_frame K V kind s m
           = \<lparr> sp = strm_sp s, unextended_sp = strm_sp s, fp = 0, pc = 0, cb = 0,
               oop_map = 0, on_heap = True \<rparr>
       \<and> to_frame K V kind s m = to_frame K' V' kind' s m'"
  using assms by (simp add: to_frame_def)

theorem to_frame_done_sentinel_witness:
  "is_done \<lparr> strm_end = 0x2100, strm_sp = 0x2100, strm_unextended_sp = 0x2100,
             strm_cb = 0x99, strm_oopmap = 0x77 \<rparr>
   \<and> to_frame x86_64_offsets sample_vm MIXED
        \<lparr> strm_end = 0x2100, strm_sp = 0x2100, strm_unextended_sp = 0x2100,
          strm_cb = 0x99, strm_oopmap = 0x77 \<rparr> (\<lambda>_. 0x1100)
       = \<lparr> sp = 0x2100, unextended_sp = 0x2100, fp = 0, pc = 0, cb = 0, oop_map = 0,
           on_heap = True \<rparr>"
proof -
  let ?s = "\<lparr> strm_end = 0x2100, strm_sp = 0x2100, strm_unextended_sp = 0x2100,
             strm_cb = 0x99, strm_oopmap = 0x77 \<rparr>"
  have d: "is_done ?s"
    by (simp add: is_done_def)
  show ?thesis
    using to_frame_done_sentinel [OF d, of x86_64_offsets sample_vm MIXED "\<lambda>_. 0x1100"] d
    by simp
qed

section \<open>The frame stream advances towards the end of the chunk\<close>

text \<open>
  Claim C5.  One step of the stream over an interpreted frame.  In a valid chunk
  the cursor is not yet done, the frame satisfies \<open>sp \<le> fp\<close>, the metadata
  above the frame pointer does not wrap around the address space, and the
  frame's locals end at or above the sender's stack pointer.  Then the step
  strictly raises the cursor's sp (the successor is the frame pointer, read back
  from the relative link, plus the metadata word count), never moves it past
  the recorded end, and strictly shortens the distance to the end.  When the
  frame's locals reach the recorded end the cursor's sp and unextended sp are
  set to the end exactly and the stream is done; otherwise the stream is not
  done, so the end is reached once, by the last step.
\<close>

theorem next_for_interpreter_frame_advances:
  assumes tier: "kind = MIXED" "is_interpreted V s m"
      and nd: "\<not> is_done s"
      and meta: "0 < sender_sp_offset K" "sender_sp_offset K < 2 ^ 61"
      and inv: "strm_sp s \<le> stream_fp K V kind s m"
      and nowrap: "stream_fp K V kind s m \<le> ptr_add (stream_fp K V kind s m) (sender_sp_offset K)"
      and locals: "ptr_add (stream_fp K V kind s m) (sender_sp_offset K)
                     \<le> ptr_add (derelativize K V kind s m (interpreter_frame_locals_offset K)) 1"
  shows "stream_fp K V kind s m
           = ptr_addw (ptr_sub (strm_sp s) (sender_sp_offset K))
               (m (ptr_sub (strm_sp s) (sender_sp_offset K)))
       \<and> strm_sp (next_for_interpreter_frame K V kind s m)
           = next_sp_for_interpreter_frame K V kind s m
       \<and> strm_end (next_for_interpreter_frame K V kind s m) = strm_end s
       \<and> strm_sp s < strm_sp (next_for_interpreter_frame K V kind s m)
       \<and> strm_sp (next_for_interpreter_frame K V kind s m) \<le> strm_end s
       \<and> unat (strm_end s - strm_sp (next_for_interpreter_frame K V kind s m))
           < unat (strm_end s - strm_sp s)
       \<and> (if strm_end s
               \<le> ptr_add (derelativize K V kind s m (interpreter_frame_locals_offset K)) 1
           then strm_sp (next_for_interpreter_frame K V kind s m) = strm_end s
              \<and> strm_unextended_sp (next_for_interpreter_frame K V kind s m) = strm_end s
              \<and> is_done (next_for_interpreter_frame K V kind s m)
           else strm_sp (next_for_interpreter_frame K V kind s m)
                  = ptr_add (stream_fp K V kind s m) (sender_sp_offset K)
              \<and> \<not> is_done (next_for_interpreter_frame K V kind s m))"
proof -
  let ?n = "next_for_interpreter_frame K V kind s m"
  let ?fp = "stream_fp K V kind s m"
  let ?bot = "ptr_add (derelativize K V kind s m (interpreter_frame_locals_offset K)) 1"
  have fp_eq: "?fp = ptr_addw (ptr_sub (strm_sp s) (sender_sp_offset K))
                       (m (ptr_sub (strm_sp s) (sender_sp_offset K)))"
    using tier by (simp add: stream_fp_def Let_def)
  have nsp: "strm_sp ?n = next_sp_for_interpreter_frame K V kind s m"
    by (simp add: next_for_interpreter_frame_def next_sp_for_interpreter_frame_def Let_def)
  have e: "strm_end ?n = strm_end s"
    by (simp add: next_for_interpreter_frame_def Let_def)
  have lt: "strm_sp s < strm_end s"
    using nd by (simp add: is_done_def)
  have up: "?fp < ptr_add ?fp (sender_sp_offset K)"
    using meta nowrap by (rule ptr_add_strict)
  show ?thesis
  proof (cases "strm_end s \<le> ?bot")
    case True
    then have t1: "strm_sp ?n = strm_end s" and t2: "strm_unextended_sp ?n = strm_end s"
      by (simp_all add: next_for_interpreter_frame_def)
    have c4: "strm_sp s < strm_sp ?n"
      using lt by (simp add: t1)
    have c5: "strm_sp ?n \<le> strm_end s"
      by (simp add: t1)
    have c6: "is_done ?n"
      by (simp add: is_done_def e t1)
    note c7 = distance_decreases [OF c4 c5]
    from True fp_eq nsp e c4 c5 c7 t1 t2 c6 show ?thesis
      by (simp only: if_True simp_thms)
  next
    case False
    then have sp': "strm_sp ?n = ptr_add ?fp (sender_sp_offset K)"
      by (simp add: next_for_interpreter_frame_def Let_def)
    have below: "ptr_add ?fp (sender_sp_offset K) < strm_end s"
      using False locals by simp
    have above: "strm_sp s < ptr_add ?fp (sender_sp_offset K)"
      using inv up by simp
    have c4: "strm_sp s < strm_sp ?n"
      using above by (simp add: sp')
    have c5: "strm_sp ?n \<le> strm_end s"
      using below by (simp add: sp')
    have c6: "\<not> is_done ?n"
      using below by (simp add: is_done_def e sp' not_le)
    note c7 = distance_decreases [OF c4 c5]
    from False fp_eq nsp e c4 c5 c7 sp' c6 show ?thesis
      by (simp only: if_False simp_thms)
  qed
qed

theorem next_for_interpreter_frame_advances_witness:
  "is_interpreted sample_vm (sample_stream 0x2100) sample_chunk
   \<and> \<not> is_done (sample_stream 0x2100)
   \<and> strm_sp (sample_stream 0x2100)
       \<le> stream_fp x86_64_offsets sample_vm MIXED (sample_stream 0x2100) sample_chunk
   \<and> strm_sp (next_for_interpreter_frame x86_64_offsets sample_vm MIXED
                (sample_stream 0x2100) sample_chunk) = 0x2050
   \<and> \<not> is_done (next_for_interpreter_frame x86_64_offsets sample_vm MIXED
                (sample_stream 0x2100) sample_chunk)
   \<and> is_interpreted sample_vm (sample_stream 0x2068) sample_chunk
   \<and> strm_sp (next_for_interpreter_frame x86_64_offsets sample_vm MIXED
                (sample_stream 0x2068) sample_chunk) = 0x2068
   \<and> is_done (next_for_interpreter_frame x86_64_offsets sample_vm MIXED
                (sample_stream 0x2068) sample_chunk)"
proof -
  let ?K = x86_64_offsets
  have k: "0 < sender_sp_offset ?K" "sender_sp_offset ?K < 2 ^ 61"
    by (simp_all add: x86_64_offsets_def)
  have sso: "sender_sp_offset ?K = 2"
    by (simp add: x86_64_offsets_def)
  { fix e :: addr
    assume e: "0x2000 < e"
    let ?s = "sample_stream e"
    have i: "is_interpreted sample_vm ?s sample_chunk"
      using e by (simp add: sample_vm_def sample_stream_def sample_chunk_def ptr_sub_def)
    have nd: "\<not> is_done ?s"
      using e by (simp add: is_done_def sample_stream_def not_le)
    have inv: "strm_sp ?s \<le> stream_fp ?K sample_vm MIXED ?s sample_chunk"
      using e by (simp add: sample_stream_fp) (simp add: sample_stream_def)
    have nw: "stream_fp ?K sample_vm MIXED ?s sample_chunk
        \<le> ptr_add (stream_fp ?K sample_vm MIXED ?s sample_chunk) (sender_sp_offset ?K)"
      using e by (simp add: sample_stream_fp sso ptr_add_def)
    have lc: "ptr_add (stream_fp ?K sample_vm MIXED ?s sample_chunk) (sender_sp_offset ?K)
        \<le> ptr_add (derelativize ?K sample_vm MIXED ?s sample_chunk
             (interpreter_frame_locals_offset ?K)) 1"
      using e by (simp add: sample_stream_fp sample_stream_locals sso ptr_add_def)
    note i nd inv next_for_interpreter_frame_advances [OF refl i nd k inv nw lc]
  } note step = this
  have e1: "(0x2000 :: addr) < 0x2100" and e2: "(0x2000 :: addr) < 0x2068"
    by simp_all
  have sel: "\<And>e. strm_end (sample_stream e) = e" "\<And>e. strm_sp (sample_stream e) = 0x2000"
    by (simp_all add: sample_stream_def)
  let ?branch = "\<lambda>s. if strm_end s
               \<le> ptr_add (derelativize ?K sample_vm MIXED s sample_chunk
                    (interpreter_frame_locals_offset ?K)) 1
           then strm_sp (next_for_interpreter_frame ?K sample_vm MIXED s sample_chunk) = strm_end s
              \<and> strm_unextended_sp (next_for_interpreter_frame ?K sample_vm MIXED s sample_chunk)
                  = strm_end s
              \<and> is_done (next_for_interpreter_frame ?K sample_vm MIXED s sample_chunk)
           else strm_sp (next_for_interpreter_frame ?K sample_vm MIXED s sample_chunk)
                  = ptr_add (stream_fp ?K sample_vm MIXED s sample_chunk) (sender_sp_offset ?K)
              \<and> \<not> is_done (next_for_interpreter_frame ?K sample_vm MIXED s sample_chunk)"
  from step(4) [OF e1] have "?branch (sample_stream 0x2100)"
    by blast
  then have r1: "strm_sp (next_for_interpreter_frame ?K sample_vm MIXED (sample_stream 0x2100)
                sample_chunk) = 0x2050
      \<and> \<not> is_done (next_for_interpreter_frame ?K sample_vm MIXED (sample_stream 0x2100)
                sample_chunk)"
    by (simp add: sample_stream_fp sample_stream_locals sso ptr_add_def sel)
  from step(4) [OF e2] have "?branch (sample_stream 0x2068)"
    by blast
  then have r2: "strm_sp (next_for_interpreter_frame ?K sample_vm MIXED (sample_stream 0x2068)
                sample_chunk) = 0x2068
      \<and> is_done (next_for_interpreter_frame ?K sample_vm MIXED (sample_stream 0x2068)
                sample_chunk)"
    by (simp add: sample_stream_fp sample_stream_locals sso ptr_add_def sel)
  show ?thesis
    using step(1-3) [OF e1] step(1) [OF e2] r1 r2 by simp
qed

section \<open>The two register maps and the frame-pointer register\<close>

text \<open>
  Claim C7, as stated, fails where the general map walks inside a continuation:
  there \<open>update_reg_map_pd\<close> records the constant \<open>sender_sp_offset\<close>, not the
  address \<open>sp - sender_sp_offset\<close> that the restricted map returns.
\<close>

theorem register_map_fp_location_counterexample:
  "SmallRegisterMap_location x86_64_offsets (10 :: int) 11 True 10 0x2000
     \<noteq> Returns (RegisterMap_location
          (update_reg_map_pd x86_64_offsets 10 11 (sample_stream 0x2100) (sample_map True True))
          10 0x2000)"
  by (simp add: SmallRegisterMap_location_def assert_is_rbp_def RegisterMap_location_def
      update_reg_map_pd_def update_map_with_saved_link_def RegisterMap_set_location_def
      sample_map_def sample_stream_def x86_64_offsets_def ptr_sub_def)

text \<open>
  Claim C7, amended.  For the frame-pointer register (either half) the
  restricted map's \<open>location(reg, sp)\<close> is \<open>sp - sender_sp_offset\<close>, and asking it
  about any other register fails the debug-build assertion.  The general map
  holds that same address after \<open>copy_to_RegisterMap\<close>, and after the stream's
  saved-link update when the map is updating and not inside a continuation.
  Inside a continuation the update records the word offset \<open>sender_sp_offset\<close>
  instead, which is the distance from the restricted map's location up to
  \<open>sp\<close>; a map that is not updating is left unchanged.
\<close>

theorem register_map_fp_location:
  "(reg = rbp \<or> reg = rbp_next \<longrightarrow>
      SmallRegisterMap_location K rbp rbp_next debug reg sp0
        = Returns (ptr_sub sp0 (sender_sp_offset K)))
   \<and> (reg \<noteq> rbp \<and> reg \<noteq> rbp_next \<longrightarrow>
      SmallRegisterMap_location K rbp rbp_next True reg sp0 = Assertion_failed)
   \<and> (reg = rbp \<or> reg = rbp_next \<longrightarrow>
      Returns (RegisterMap_location (copy_to_RegisterMap K rbp rbp_next rmap sp0) reg sp0)
        = SmallRegisterMap_location K rbp rbp_next debug reg sp0)
   \<and> ((reg = rbp \<or> reg = rbp_next) \<and> update_map rmap \<and> \<not> in_cont rmap \<and> strm_sp s = sp0 \<longrightarrow>
      Returns (RegisterMap_location (update_reg_map_pd K rbp rbp_next s rmap) reg sp0)
        = SmallRegisterMap_location K rbp rbp_next debug reg sp0)
   \<and> ((reg = rbp \<or> reg = rbp_next) \<and> update_map rmap \<and> in_cont rmap \<longrightarrow>
      RegisterMap_location (update_reg_map_pd K rbp rbp_next s rmap) reg sp0
        = word_of_int (sender_sp_offset K)
      \<and> Returns (ptr_subw sp0
            (RegisterMap_location (update_reg_map_pd K rbp rbp_next s rmap) reg sp0))
        = SmallRegisterMap_location K rbp rbp_next debug reg sp0)
   \<and> (\<not> update_map rmap \<longrightarrow> update_reg_map_pd K rbp rbp_next s rmap = rmap)"
  by (auto simp add: SmallRegisterMap_location_def assert_is_rbp_def RegisterMap_location_def
      update_reg_map_pd_def update_map_with_saved_link_def RegisterMap_set_location_def
      copy_to_RegisterMap_def RegisterMap_clear_def ptr_subw_of_int)

theorem register_map_fp_location_witness:
  "SmallRegisterMap_location x86_64_offsets (10 :: int) 11 True 10 0x2000 = Returns 0x1FF0
   \<and> SmallRegisterMap_location x86_64_offsets (10 :: int) 11 True 12 0x2000 = Assertion_failed
   \<and> RegisterMap_location
        (copy_to_RegisterMap x86_64_offsets 10 11 (sample_map False False) 0x2000) 10 0x2000
       = 0x1FF0
   \<and> RegisterMap_location
        (update_reg_map_pd x86_64_offsets 10 11 (sample_stream 0x2100) (sample_map True False))
        10 0x2000 = 0x1FF0
   \<and> RegisterMap_location
        (update_reg_map_pd x86_64_offsets 10 11 (sample_stream 0x2100) (sample_map True True))
        10 0x2000 = 2"
  using register_map_fp_location [where reg = 10 and rbp = "10 :: int" and rbp_next = 11
      and K = x86_64_offsets and debug = True and ?sp0.0 = "0x2000"
      and rmap = "sample_map False False" and s = "sample_stream 0x2100"]
    register_map_fp_location [where reg = 12 and rbp = "10 :: int" and rbp_next = 11
      and K = x86_64_offsets and debug = True and ?sp0.0 = "0x2000"
      and rmap = "sample_map True False" and s = "sample_stream 0x2100"]
    register_map_fp_location [where reg = 10 and rbp = "10 :: int" and rbp_next = 11
      and K = x86_64_offsets and debug = True and ?sp0.0 = "0x2000"
      and rmap = "sample_map True False" and s = "sample_stream 0x2100"]
    register_map_fp_location [where reg = 10 and rbp = "10 :: int" and rbp_next = 11
      and K = x86_64_offsets and debug = True and ?sp0.0 = "0x2000"
      and rmap = "sample_map True True" and s = "sample_stream 0x2100"]
  by (simp add: SmallRegisterMap_location_def assert_is_rbp_def RegisterMap_location_def
      update_reg_map_pd_def update_map_with_saved_link_def RegisterMap_set_location_def
      copy_to_RegisterMap_def RegisterMap_clear_def
      sample_map_def sample_stream_def x86_64_offsets_def ptr_sub_def)

end
